theory Spec2Isabelle
  imports Main "HOL-Library.Multiset" "HOL-Library.Code_Target_Nat"
begin

section \<open>JavaScript strings\<close>

text \<open>
  A JavaScript string is a sequence of UTF-16 code units. The model keeps the code units
  \<open>0..255\<close>: a \<^typ>\<open>char\<close> stands for the code unit with the same number, so a
  \<^typ>\<open>string\<close> is a JavaScript string over ASCII and Latin-1. Every literal of
  \<^verbatim>\<open>parse.js\<close> is ASCII. Code units from 256 on are outside the model, among them
  the further white space of Unicode and the surrogates, on which
  \<^verbatim>\<open>encodeURIComponent\<close> can throw.
\<close>

text \<open>\<^verbatim>\<open>s.startsWith(p)\<close>\<close>

definition startsWith :: "string \<Rightarrow> string \<Rightarrow> bool" where
  "startsWith s p = (take (length p) s = p)"

text \<open>\<^verbatim>\<open>s.substring(n)\<close> for \<open>0 \<le> n\<close>: the rest from index \<open>n\<close>, empty beyond the end.\<close>

definition substring :: "string \<Rightarrow> nat \<Rightarrow> string" where
  "substring s n = drop n s"

text \<open>\<^verbatim>\<open>s.includes(sub)\<close>: \<open>sub\<close> occurs at some position of \<open>s\<close>.\<close>

fun str_includes :: "string \<Rightarrow> string \<Rightarrow> bool" where
  "str_includes [] sub = (sub = [])"
| "str_includes (c # cs) sub = (startsWith (c # cs) sub \<or> str_includes cs sub)"

text \<open>
  The white space \<^verbatim>\<open>String.prototype.trim\<close> strips, among the code units below 256:
  TAB, LF, VT, FF, CR, SPACE and NBSP.
\<close>

definition isWhiteSpace :: "char \<Rightarrow> bool" where
  "isWhiteSpace c = (c \<in> set [CHR 0x09, CHR 0x0A, CHR 0x0B, CHR 0x0C, CHR 0x0D, CHR 0x20, CHR 0xA0])"

definition trim :: "string \<Rightarrow> string" where
  "trim s = rev (dropWhile isWhiteSpace (rev (dropWhile isWhiteSpace s)))"

text \<open>
  \<^verbatim>\<open>s.split(sep)\<close>: the pieces between the occurrences of \<open>sep\<close>, found from left to
  right without overlap. \<open>split_from sep cur s\<close> scans \<open>s\<close> with \<open>cur\<close> the piece
  read so far. With the empty separator JavaScript yields the code units one by one.
\<close>

fun split_from :: "string \<Rightarrow> string \<Rightarrow> string \<Rightarrow> string list" where
  "split_from sep cur [] = [cur]"
| "split_from sep cur (c # cs) =
     (if startsWith (c # cs) sep
      then cur # split_from sep [] (drop (length sep - 1) cs)
      else split_from sep (cur @ [c]) cs)"

definition split :: "string \<Rightarrow> string \<Rightarrow> string list" where
  "split s sep = (if sep = [] then map (\<lambda>c. [c]) s else split_from sep [] s)"

text \<open>\<^verbatim>\<open>xs.join(sep)\<close> on a list of strings.\<close>

fun join :: "string list \<Rightarrow> string \<Rightarrow> string" where
  "join [] sep = []"
| "join [x] sep = x"
| "join (x # y # ys) sep = x @ sep @ join (y # ys) sep"

section \<open>JSON values\<close>

text \<open>
  The values \<^verbatim>\<open>JSON.parse\<close> returns. A number is an IEEE double, which the code never
  inspects: its type \<open>'n\<close> is left open. An object is the list of its own properties in
  the order they were created, with no key twice; \<open>own_property_order\<close> below gives the
  order in which \<^verbatim>\<open>Object.keys\<close> and \<^verbatim>\<open>Object.entries\<close> enumerate them.
  \<^verbatim>\<open>JSON.parse\<close> itself belongs to the runtime, not to \<^verbatim>\<open>parse.js\<close>: it is the
  parameter \<open>JSON_parse\<close> of the functions that call it, \<open>None\<close> when it throws.
\<close>

datatype 'n json =
    JNull
  | JBool bool
  | JNumber 'n
  | JString string
  | JArray "'n json list"
  | JObject "(string \<times> 'n json) list"

type_synonym 'n json_parser = "string \<Rightarrow> 'n json option"

section \<open>parseReqline\<close>

text \<open>
  \<^verbatim>\<open>const result = { method: null, url: null, headers: {}, query: {}, body: {} }\<close>;
  \<open>None\<close> is \<^verbatim>\<open>null\<close>.
\<close>

record 'n descriptor =
  "method" :: "string option"
  url :: "string option"
  headers :: "'n json"
  query :: "'n json"
  body :: "'n json"

definition init_result :: "'n descriptor" where
  "init_result = \<lparr>method = None, url = None, headers = JObject [], query = JObject [], body = JObject []\<rparr>"

text \<open>
  \<^verbatim>\<open>part.split(' ')[0]\<close> inside a template literal; an index out of range would read
  \<^verbatim>\<open>undefined\<close>.
\<close>

definition first_word :: "string \<Rightarrow> string" where
  "first_word part = (case split part '' '' of [] \<Rightarrow> ''undefined'' | w # _ \<Rightarrow> w)"

text \<open>
  The body of the \<^verbatim>\<open>for\<close> loop at index \<open>i\<close>: \<open>Inl msg\<close> is
  \<^verbatim>\<open>throw new Error(msg)\<close>, \<open>Inr\<close> the updated \<^verbatim>\<open>result\<close>.
\<close>

definition parse_part :: "'n json_parser \<Rightarrow> nat \<Rightarrow> string \<Rightarrow> 'n descriptor \<Rightarrow> string + 'n descriptor" where
  "parse_part JSON_parse i raw result =
     (let part = trim raw in
      if i = 0 then
        if \<not> startsWith part ''HTTP '' then Inl ''Missing required HTTP keyword''
        else
          let methodPart = trim (substring part 5) in
          if methodPart = [] then Inl ''Missing HTTP method''
          else if methodPart \<noteq> ''GET'' \<and> methodPart \<noteq> ''POST''
          then Inl ''Invalid HTTP method. Only GET and POST are supported''
          else Inr (result\<lparr>method := Some methodPart\<rparr>)
      else if i = 1 then
        if \<not> startsWith part ''URL '' then Inl ''Missing required URL keyword''
        else
          let urlPart = trim (substring part 4) in
          if urlPart = [] then Inl ''Missing URL value''
          else if \<not> startsWith urlPart ''http://'' \<and> \<not> startsWith urlPart ''https://''
          then Inl ''Invalid URL format. Must start with http:// or https://''
          else
            let urlParts = split urlPart ''/'' in
            if length urlParts < 3 then Inl ''Invalid URL format. Missing domain or path''
            else Inr (result\<lparr>url := Some urlPart\<rparr>)
      else if startsWith part ''HEADERS '' then
        let headersPart = trim (substring part 8) in
        if headersPart \<noteq> [] then
          (case JSON_parse headersPart of
             None \<Rightarrow> Inl ''Invalid JSON format in HEADERS section''
           | Some v \<Rightarrow> Inr (result\<lparr>headers := v\<rparr>))
        else Inr result
      else if startsWith part ''QUERY '' then
        let queryPart = trim (substring part 6) in
        if queryPart \<noteq> [] then
          (case JSON_parse queryPart of
             None \<Rightarrow> Inl ''Invalid JSON format in QUERY section''
           | Some v \<Rightarrow> Inr (result\<lparr>query := v\<rparr>))
        else Inr result
      else if startsWith part ''BODY '' then
        let bodyPart = trim (substring part 5) in
        if bodyPart \<noteq> [] then
          (case JSON_parse bodyPart of
             None \<Rightarrow> Inl ''Invalid JSON format in BODY section''
           | Some v \<Rightarrow> Inr (result\<lparr>body := v\<rparr>))
        else Inr result
      else Inl (''Unknown keyword: '' @ first_word part))"

text \<open>
  \<^verbatim>\<open>for (let i = 0; i < parts.length; i++)\<close> from index \<open>i\<close> on, over the parts
  still to read; the first \<^verbatim>\<open>throw\<close> leaves the loop.
\<close>

fun parse_parts :: "'n json_parser \<Rightarrow> nat \<Rightarrow> string list \<Rightarrow> 'n descriptor \<Rightarrow> string + 'n descriptor" where
  "parse_parts JSON_parse i [] result = Inr result"
| "parse_parts JSON_parse i (p # ps) result =
     (case parse_part JSON_parse i p result of
        Inl msg \<Rightarrow> Inl msg
      | Inr result' \<Rightarrow> parse_parts JSON_parse (Suc i) ps result')"

text \<open>
  The checks after the loop: \<^verbatim>\<open>!result.method\<close> holds for \<^verbatim>\<open>null\<close> and for the
  empty string.
\<close>

definition check_required :: "'n descriptor \<Rightarrow> string + 'n descriptor" where
  "check_required result =
     (if method result = None \<or> method result = Some [] then Inl ''Missing required HTTP keyword''
      else if url result = None \<or> url result = Some [] then Inl ''Missing required URL keyword''
      else Inr result)"

definition parseReqline :: "'n json_parser \<Rightarrow> string \<Rightarrow> string + 'n descriptor" where
  "parseReqline JSON_parse reqline =
     (let parts = split reqline '' | '' in
      if length parts < 2
      then Inl ''Invalid reqline format. Expected at least HTTP and URL parts.''
      else
        (case parse_parts JSON_parse 0 parts init_result of
           Inl msg \<Rightarrow> Inl msg
         | Inr result \<Rightarrow> check_required result))"

section \<open>Runtime functions on values\<close>

text \<open>Decimal digits of a natural number, as \<^verbatim>\<open>String(n)\<close> prints an array index or a status code.\<close>

fun nat_to_string :: "nat \<Rightarrow> string" where
  "nat_to_string n =
     (if n < 10 then [char_of (48 + n)]
      else nat_to_string (n div 10) @ [char_of (48 + n mod 10)])"

text \<open>
  The order of an object's own properties. A \<open>JObject\<close> holds them in the order they
  were created, which for \<^verbatim>\<open>JSON.parse\<close> is the order of the keys in the text (a key
  that is repeated keeps its first place and takes its last value). The
  runtime enumerates them otherwise: first the keys that are array indices, in ascending
  numeric order, then the other keys in the order of creation. An array index is the
  canonical decimal form of an integer from 0 to 4294967294: \<^verbatim>\<open>0\<close> and \<^verbatim>\<open>17\<close> are,
  \<^verbatim>\<open>01\<close> and \<^verbatim>\<open>-1\<close> are not.
\<close>

definition digits_value :: "string \<Rightarrow> nat" where
  "digits_value s = foldl (\<lambda>a c. 10 * a + (of_char c - 48)) 0 s"

definition is_array_index :: "string \<Rightarrow> bool" where
  "is_array_index k = (nat_to_string (digits_value k) = k \<and> digits_value k < 4294967295)"

definition own_property_order :: "(string \<times> 'v) list \<Rightarrow> (string \<times> 'v) list" where
  "own_property_order kvs =
     sort_key (\<lambda>kv. digits_value (fst kv)) (filter (\<lambda>kv. is_array_index (fst kv)) kvs) @
     filter (\<lambda>kv. \<not> is_array_index (fst kv)) kvs"

text \<open>\<^verbatim>\<open>Object.entries(v)\<close> for a value that is not \<^verbatim>\<open>null\<close>.\<close>

fun Object_entries :: "'n json \<Rightarrow> (string \<times> 'n json) list" where
  "Object_entries JNull = []"
| "Object_entries (JBool b) = []"
| "Object_entries (JNumber n) = []"
| "Object_entries (JString s) = zip (map nat_to_string [0..<length s]) (map (\<lambda>c. JString [c]) s)"
| "Object_entries (JArray xs) = zip (map nat_to_string [0..<length xs]) xs"
| "Object_entries (JObject kvs) = own_property_order kvs"

text \<open>
  The own enumerable property names of a value that is not \<^verbatim>\<open>null\<close>: none for a
  boolean or a number, the indices for a string or an array, the keys for an object.
\<close>

definition own_keys :: "'n json \<Rightarrow> string list" where
  "own_keys v = map fst (Object_entries v)"

text \<open>
  A thrown value as the \<^verbatim>\<open>catch\<close> block reads it: \<^verbatim>\<open>error.message\<close> and
  \<^verbatim>\<open>error.response\<close> with its \<^verbatim>\<open>status\<close> and \<^verbatim>\<open>statusText\<close>
  (\<open>None\<close> when the error has no \<^verbatim>\<open>response\<close>).
\<close>

record js_error =
  message :: string
  response :: "(nat \<times> string) option"

text \<open>\<^verbatim>\<open>Object.keys(v)\<close>: a TypeError on \<^verbatim>\<open>null\<close>.\<close>

definition Object_keys :: "'n json \<Rightarrow> js_error + string list" where
  "Object_keys v =
     (case v of
        JNull \<Rightarrow> Inl \<lparr>message = ''Cannot convert undefined or null to object'', response = None\<rparr>
      | _ \<Rightarrow> Inr (own_keys v))"

text \<open>
  The results of evaluating a list of expressions from left to right: the first one that
  throws ends the evaluation with its error.
\<close>

fun first_error :: "('e + 'a) list \<Rightarrow> 'e + 'a list" where
  "first_error [] = Inr []"
| "first_error (Inl e # rs) = Inl e"
| "first_error (Inr x # rs) = (case first_error rs of Inl e \<Rightarrow> Inl e | Inr xs \<Rightarrow> Inr (x # xs))"

text \<open>
  \<^verbatim>\<open>String(v)\<close>, which a template literal and \<^verbatim>\<open>encodeURIComponent\<close> apply to
  their argument. \<open>Number_toString\<close> prints a number. An array joins its elements with
  commas, \<^verbatim>\<open>null\<close> elements printing as nothing. An object prints through its
  \<^verbatim>\<open>toString\<close> property: a parsed object with an own key \<^verbatim>\<open>toString\<close> has a value
  there that cannot be called, and with \<^verbatim>\<open>valueOf\<close> giving no primitive either the
  conversion throws a TypeError; every other parsed object inherits
  \<^verbatim>\<open>Object.prototype.toString\<close>.
\<close>

fun ToString :: "('n \<Rightarrow> string) \<Rightarrow> 'n json \<Rightarrow> js_error + string" where
  "ToString Number_toString JNull = Inr ''null''"
| "ToString Number_toString (JBool b) = Inr (if b then ''true'' else ''false'')"
| "ToString Number_toString (JNumber n) = Inr (Number_toString n)"
| "ToString Number_toString (JString s) = Inr s"
| "ToString Number_toString (JArray xs) =
     (case first_error (map (\<lambda>x. if x = JNull then Inr [] else ToString Number_toString x) xs) of
        Inl e \<Rightarrow> Inl e
      | Inr texts \<Rightarrow> Inr (join texts '',''))"
| "ToString Number_toString (JObject kvs) =
     (if ''toString'' \<in> set (map fst kvs)
      then Inl \<lparr>message = ''Cannot convert object to primitive value'', response = None\<rparr>
      else Inr ''[object Object]'')"

text \<open>
  \<^verbatim>\<open>encodeURIComponent\<close>: letters, digits and \<^verbatim>\<open>- _ . ! ~ * ' ( )\<close> stay; every
  other code unit is written as the bytes of its UTF-8 encoding, each as \<^verbatim>\<open>%XX\<close> in
  upper-case hexadecimal. A code unit below 128 is one byte, one from 128 to 255 two.
\<close>

definition unreserved :: "char \<Rightarrow> bool" where
  "unreserved c =
     (c \<in> set (''ABCDEFGHIJKLMNOPQRSTUVWXYZabcdefghijklmnopqrstuvwxyz0123456789-_.!~*()'' @ [CHR 0x27]))"

definition hex_digits :: string where
  "hex_digits = ''0123456789ABCDEF''"

definition hex_digit :: "nat \<Rightarrow> char" where
  "hex_digit n = hex_digits ! (n mod 16)"

definition percent :: "nat \<Rightarrow> string" where
  "percent b = [CHR ''%'', hex_digit (b div 16), hex_digit b]"

definition encode_unit :: "char \<Rightarrow> string" where
  "encode_unit c =
     (let n = (of_char c :: nat) in
      if unreserved c then [c]
      else if n < 128 then percent n
      else percent (192 + n div 64) @ percent (128 + n mod 64))"

definition encodeURIComponent :: "string \<Rightarrow> string" where
  "encodeURIComponent s = concat (map encode_unit s)"

text \<open>\<^verbatim>\<open>s.toLowerCase()\<close> on the code units below 256.\<close>

definition lower_unit :: "char \<Rightarrow> char" where
  "lower_unit c =
     (let n = (of_char c :: nat) in
      if (65 \<le> n \<and> n \<le> 90) \<or> (192 \<le> n \<and> n \<le> 222 \<and> n \<noteq> 215) then char_of (n + 32) else c)"

definition toLowerCase :: "string \<Rightarrow> string" where
  "toLowerCase s = map lower_unit s"

section \<open>buildFullUrl\<close>

text \<open>
  \<^verbatim>\<open>!queryParams || Object.keys(queryParams).length === 0\<close>: the first test holds for
  \<^verbatim>\<open>null\<close>, which it keeps from \<^verbatim>\<open>Object.keys\<close>, and for \<^verbatim>\<open>false\<close>,
  \<^verbatim>\<open>0\<close> and the empty string, which have no keys, so that for them the second test
  gives the same answer. The pairs are built from left to right; \<open>Inl\<close> is the TypeError
  that \<^verbatim>\<open>encodeURIComponent(value)\<close> throws when the value cannot be printed.
\<close>

definition buildFullUrl :: "('n \<Rightarrow> string) \<Rightarrow> string \<Rightarrow> 'n json \<Rightarrow> js_error + string" where
  "buildFullUrl Number_toString baseUrl queryParams =
     (if queryParams = JNull \<or> length (own_keys queryParams) = 0 then Inr baseUrl
      else
        let separator = (if str_includes baseUrl ''?'' then ''&'' else ''?'') in
        case first_error
               (map (\<lambda>(key, value).
                       case ToString Number_toString value of
                         Inl e \<Rightarrow> Inl e
                       | Inr text \<Rightarrow> Inr (encodeURIComponent key @ ''='' @ encodeURIComponent text))
                    (Object_entries queryParams)) of
          Inl e \<Rightarrow> Inl e
        | Inr pairs \<Rightarrow> Inr (baseUrl @ separator @ join pairs ''&''))"

section \<open>The endpoint handler\<close>

text \<open>
  Modelled from the spec: \<^verbatim>\<open>helpers.http_statuses\<close> comes from the server package,
  which is not part of the source; the spec gives the two codes as 400 and 200.
\<close>

definition HTTP_400_BAD_REQUEST :: nat where
  "HTTP_400_BAD_REQUEST = 400"

definition HTTP_200_OK :: nat where
  "HTTP_200_OK = 200"

text \<open>\<^verbatim>\<open>requestConfig\<close>; \<open>cfg_data = None\<close> when no \<^verbatim>\<open>data\<close> property is set.\<close>

record 'n request_config =
  cfg_method :: string
  cfg_url :: string
  cfg_headers :: "'n json"
  cfg_timeout :: nat
  cfg_data :: "'n json option"

text \<open>What the collaborator resolves to: \<^verbatim>\<open>response.status\<close> and \<^verbatim>\<open>response.data\<close>.\<close>

record 'd axios_response =
  resp_status :: nat
  resp_data :: 'd

text \<open>
  The collaborator \<^verbatim>\<open>axios\<close> is a parameter: a function from the request configuration
  to the value it rejects with (\<open>Inl\<close>) or resolves to (\<open>Inr\<close>).
\<close>

type_synonym ('n, 'd) collaborator = "'n request_config \<Rightarrow> js_error + 'd axios_response"

text \<open>The \<^verbatim>\<open>data\<close> of the handler's result: the error envelope or the success envelope.\<close>

record 'n request_echo =
  echo_query :: "'n json"
  echo_body :: "'n json"
  echo_headers :: "'n json"
  full_url :: string

record 'd response_report =
  http_status :: nat
  duration :: int
  request_start_timestamp :: int
  request_stop_timestamp :: int
  response_data :: 'd

datatype ('n, 'd) envelope =
    Failure bool string
  | Success "'n request_echo" "'d response_report"

record ('n, 'd) handler_result =
  status :: nat
  data :: "('n, 'd) envelope"

text \<open>The calls the handler makes, in the order it makes them.\<close>

datatype 'n call = Call_parseReqline string | Call_axios "'n request_config"

text \<open>
  \<^verbatim>\<open>const { reqline } = rc.body\<close>: \<open>None\<close> when the body has no \<^verbatim>\<open>reqline\<close>
  field, \<open>Some s\<close> for a string. \<^verbatim>\<open>!reqline\<close> holds for \<^verbatim>\<open>undefined\<close> and for the
  empty string.
\<close>

definition not_reqline :: "string option \<Rightarrow> bool" where
  "not_reqline reqline = (case reqline of None \<Rightarrow> True | Some s \<Rightarrow> s = [])"

definition missing_reqline :: "('n, 'd) handler_result" where
  "missing_reqline = \<lparr>status = HTTP_400_BAD_REQUEST, data = Failure True ''Missing reqline parameter''\<rparr>"

text \<open>
  From \<^verbatim>\<open>requestConfig\<close> to the \<^verbatim>\<open>return\<close> of the \<^verbatim>\<open>try\<close> block. The two
  readings of \<^verbatim>\<open>Date.now()\<close> are the parameters \<open>requestStartTimestamp\<close> and
  \<open>requestStopTimestamp\<close>. \<^verbatim>\<open>Object.keys(parsed.body)\<close> is reached only when the
  method is POST.
\<close>

definition send_request ::
  "('n, 'd) collaborator \<Rightarrow> int \<Rightarrow> int \<Rightarrow> 'n descriptor \<Rightarrow> string \<Rightarrow> string
     \<Rightarrow> (js_error + ('n, 'd) handler_result) \<times> 'n call list" where
  "send_request axios requestStartTimestamp requestStopTimestamp parsed parsed_method fullUrl =
     (let requestConfig =
            \<lparr>cfg_method = toLowerCase parsed_method, cfg_url = fullUrl,
             cfg_headers = headers parsed, cfg_timeout = 10000, cfg_data = None\<rparr>
      in
      case (if parsed_method = ''POST''
            then (case Object_keys (body parsed) of
                    Inl e \<Rightarrow> Inl e
                  | Inr ks \<Rightarrow>
                      Inr (if length ks > 0 then requestConfig\<lparr>cfg_data := Some (body parsed)\<rparr>
                           else requestConfig))
            else Inr requestConfig) of
        Inl e \<Rightarrow> (Inl e, [])
      | Inr requestConfig' \<Rightarrow>
          (case axios requestConfig' of
             Inl e \<Rightarrow> (Inl e, [Call_axios requestConfig'])
           | Inr resp \<Rightarrow>
               (Inr \<lparr>status = HTTP_200_OK,
                     data = Success
                       \<lparr>echo_query = query parsed, echo_body = body parsed,
                        echo_headers = headers parsed, full_url = fullUrl\<rparr>
                       \<lparr>http_status = resp_status resp,
                        duration = requestStopTimestamp - requestStartTimestamp,
                        request_start_timestamp = requestStartTimestamp,
                        request_stop_timestamp = requestStopTimestamp,
                        response_data = resp_data resp\<rparr>\<rparr>,
                [Call_axios requestConfig'])))"

text \<open>
  The \<^verbatim>\<open>try\<close> block: \<open>Inl\<close> is the value thrown, \<open>Inr\<close> the value returned.
  A TypeError out of \<open>buildFullUrl\<close> leaves the block before any request is made.
  \<open>parseReqline\<close> returns no descriptor with \<^verbatim>\<open>null\<close> for \<^verbatim>\<open>url\<close> or
  \<^verbatim>\<open>method\<close> (lemma \<open>parseReqline_required\<close>), so the last branch is never
  taken; it stands for the TypeError of \<^verbatim>\<open>parsed.method.toLowerCase()\<close> on
  \<^verbatim>\<open>null\<close>.
\<close>

definition try_block ::
  "'n json_parser \<Rightarrow> ('n \<Rightarrow> string) \<Rightarrow> ('n, 'd) collaborator \<Rightarrow> int \<Rightarrow> int \<Rightarrow> string option
     \<Rightarrow> (js_error + ('n, 'd) handler_result) \<times> 'n call list" where
  "try_block JSON_parse Number_toString axios requestStartTimestamp requestStopTimestamp reqline =
     (if not_reqline reqline then (Inr missing_reqline, [])
      else
        case reqline of
          None \<Rightarrow> (Inr missing_reqline, [])
        | Some r \<Rightarrow>
            (case parseReqline JSON_parse r of
               Inl msg \<Rightarrow> (Inl \<lparr>message = msg, response = None\<rparr>, [Call_parseReqline r])
             | Inr parsed \<Rightarrow>
                 (case (url parsed, method parsed) of
                    (Some parsed_url, Some parsed_method) \<Rightarrow>
                      (case buildFullUrl Number_toString parsed_url (query parsed) of
                         Inl e \<Rightarrow> (Inl e, [Call_parseReqline r])
                       | Inr fullUrl \<Rightarrow>
                           (let (outcome, calls) =
                                  send_request axios requestStartTimestamp requestStopTimestamp
                                    parsed parsed_method fullUrl
                            in (outcome, Call_parseReqline r # calls)))
                  | _ \<Rightarrow>
                      (Inl \<lparr>message = ''Cannot read properties of null'', response = None\<rparr>,
                       [Call_parseReqline r]))))"

text \<open>The \<^verbatim>\<open>catch\<close> block.\<close>

definition catch_block :: "js_error \<Rightarrow> ('n, 'd) handler_result" where
  "catch_block error =
     (if str_includes (message error) ''Invalid reqline format'' \<or>
         str_includes (message error) ''Missing required'' \<or>
         str_includes (message error) ''Invalid HTTP method'' \<or>
         str_includes (message error) ''Invalid JSON format'' \<or>
         str_includes (message error) ''Unknown keyword''
      then \<lparr>status = HTTP_400_BAD_REQUEST, data = Failure True (message error)\<rparr>
      else
        case response error of
          Some (response_status, response_statusText) \<Rightarrow>
            \<lparr>status = HTTP_400_BAD_REQUEST,
             data = Failure True
               (''HTTP request failed: '' @ nat_to_string response_status @ '' '' @ response_statusText)\<rparr>
        | None \<Rightarrow>
            \<lparr>status = HTTP_400_BAD_REQUEST,
             data = Failure True (''Network error: '' @ message error)\<rparr>)"

text \<open>The handler: its result and the calls it made.\<close>

definition handler ::
  "'n json_parser \<Rightarrow> ('n \<Rightarrow> string) \<Rightarrow> ('n, 'd) collaborator \<Rightarrow> int \<Rightarrow> int \<Rightarrow> string option
     \<Rightarrow> ('n, 'd) handler_result \<times> 'n call list" where
  "handler JSON_parse Number_toString axios requestStartTimestamp requestStopTimestamp reqline =
     (case try_block JSON_parse Number_toString axios requestStartTimestamp requestStopTimestamp reqline of
        (Inl error, calls) \<Rightarrow> (catch_block error, calls)
      | (Inr result, calls) \<Rightarrow> (result, calls))"

section \<open>The spec's wording, for comparison\<close>



text \<open>
  The request configuration as the spec words it: the method in lower case, the full URL,
  the parsed headers as they are, a timeout of 10000 ms, and the parsed body as payload
  exactly when the method is POST and the body has a key.
\<close>

definition spec_request_config :: "'n descriptor \<Rightarrow> string \<Rightarrow> string \<Rightarrow> 'n request_config" where
  "spec_request_config parsed parsed_method fullUrl =
     \<lparr>cfg_method = toLowerCase parsed_method, cfg_url = fullUrl, cfg_headers = headers parsed,
      cfg_timeout = 10000,
      cfg_data = (if parsed_method = ''POST'' \<and> own_keys (body parsed) \<noteq> []
                  then Some (body parsed) else None)\<rparr>"

text \<open>
  The message contains one of the five phrases that the \<^verbatim>\<open>catch\<close> block looks for.
\<close>

definition parser_phrase :: "string \<Rightarrow> bool" where
  "parser_phrase msg =
     (str_includes msg ''Invalid reqline format'' \<or> str_includes msg ''Missing required'' \<or>
      str_includes msg ''Invalid HTTP method'' \<or> str_includes msg ''Invalid JSON format'' \<or>
      str_includes msg ''Unknown keyword'')"

text \<open>
  The message of the error envelope for a thrown value, in the order of the tests of the
  \<^verbatim>\<open>catch\<close> block.
\<close>

definition classified_message :: "js_error \<Rightarrow> string" where
  "classified_message e =
     (if parser_phrase (message e) then message e
      else case response e of
             Some (st, txt) \<Rightarrow> ''HTTP request failed: '' @ nat_to_string st @ '' '' @ txt
           | None \<Rightarrow> ''Network error: '' @ message e)"

section \<open>Sample runtime for concrete runs\<close>

text \<open>
  Concrete runs need a concrete runtime. \<open>sample_json\<close> agrees with \<^verbatim>\<open>JSON.parse\<close> on
  the texts \<^verbatim>\<open>{}\<close>, \<^verbatim>\<open>null\<close> and \<^verbatim>\<open>[null]\<close> and rejects every other text; it has
  no numbers, so the number type is \<^typ>\<open>unit\<close> and \<open>sample_number\<close> is never applied.
  \<open>upstream_ok\<close> resolves every request with status 200, \<open>upstream_404\<close> rejects every
  request the way the collaborator does when the upstream server answers 404.
\<close>

definition sample_json :: "unit json_parser" where
  "sample_json s =
     (if s = ''{}'' then Some (JObject [])
      else if s = ''null'' then Some JNull
      else if s = ''[null]'' then Some (JArray [JNull])
      else None)"

definition sample_number :: "unit \<Rightarrow> string" where
  "sample_number n = ''0''"

definition upstream_ok :: "(unit, string) collaborator" where
  "upstream_ok cfg = Inr \<lparr>resp_status = 200, resp_data = ''ok''\<rparr>"

definition upstream_404 :: "(unit, string) collaborator" where
  "upstream_404 cfg =
     Inl \<lparr>message = ''Request failed with status code 404'', response = Some (404, ''Not Found'')\<rparr>"

section \<open>Facts about strings\<close>

lemma split_from_length: "1 \<le> length (split_from sep cur s)"
  by (induction sep cur s rule: split_from.induct) auto

lemma length_two_cases: "length xs = 2 \<Longrightarrow> \<exists>a b. xs = [a, b]"
  by (cases xs; cases "tl xs") auto


text \<open>A trimmed string is empty only if all of the string is white space, and it never ends in white space.\<close>

lemma trim_empty_iff: "trim s = [] \<longleftrightarrow> (\<forall>c\<in>set s. isWhiteSpace c)"
proof
  assume "trim s = []"
  then have "dropWhile isWhiteSpace (rev (dropWhile isWhiteSpace s)) = []"
    by (simp add: trim_def)
  then have "\<forall>c\<in>set (dropWhile isWhiteSpace s). isWhiteSpace c"
    by (simp add: dropWhile_eq_Nil_conv)
  moreover have "dropWhile isWhiteSpace s = [] \<or> \<not> isWhiteSpace (hd (dropWhile isWhiteSpace s))"
    using hd_dropWhile by blast
  ultimately have "dropWhile isWhiteSpace s = []"
    by (cases "dropWhile isWhiteSpace s") auto
  then show "\<forall>c\<in>set s. isWhiteSpace c"
    by (simp add: dropWhile_eq_Nil_conv)
next
  assume "\<forall>c\<in>set s. isWhiteSpace c"
  then show "trim s = []"
    by (auto simp: trim_def dest: set_dropWhileD)
qed

lemma last_trim: "trim s \<noteq> [] \<Longrightarrow> \<not> isWhiteSpace (last (trim s))"
proof -
  assume ne: "trim s \<noteq> []"
  let ?d = "dropWhile isWhiteSpace (rev (dropWhile isWhiteSpace s))"
  from ne have dne: "?d \<noteq> []" by (simp add: trim_def)
  then have "\<not> isWhiteSpace (hd ?d)" by (rule hd_dropWhile)
  moreover from dne have "last (rev ?d) = hd ?d" by (simp add: last_rev)
  ultimately show ?thesis by (simp add: trim_def)
qed

text \<open>
  After a prefix that ends in white space, a trimmed string goes on with something that
  is not white space: the rest after the prefix does not trim to the empty string.
\<close>

lemma remainder_not_blank:
  assumes sw: "startsWith (trim raw) p" and pne: "p \<noteq> []" and ws: "isWhiteSpace (last p)"
  shows "trim (substring (trim raw) (length p)) \<noteq> []"
proof -
  let ?t = "trim raw" and ?rest = "drop (length p) (trim raw)"
  from sw have t: "?t = p @ ?rest"
    by (metis append_take_drop_id startsWith_def)
  with pne have tne: "?t \<noteq> []" by auto
  from last_trim [OF tne] have nl: "\<not> isWhiteSpace (last ?t)" .
  have "?rest \<noteq> []"
  proof
    assume "?rest = []"
    with t have "?t = p" by simp
    with nl ws show False by simp
  qed
  with t have "last ?t = last ?rest" by (metis last_appendR)
  with nl \<open>?rest \<noteq> []\<close> have "\<exists>c\<in>set ?rest. \<not> isWhiteSpace c"
    using last_in_set by metis
  then show ?thesis by (simp add: trim_empty_iff substring_def)
qed

text \<open>A string that starts with one of the two schemes has at least three parts between slashes.\<close>

lemma scheme_three_parts:
  assumes "startsWith u ''http://'' \<or> startsWith u ''https://''"
  shows "3 \<le> length (split u ''/'')"
proof -
  from assms obtain rest where "u = ''http://'' @ rest \<or> u = ''https://'' @ rest"
    by (metis append_take_drop_id startsWith_def)
  then show ?thesis
    using split_from_length [of "''/''" "[]" rest]
    by (auto simp: split_def startsWith_def)
qed

text \<open>\<^verbatim>\<open>part.split(' ')[0]\<close> is the text before the first space.\<close>

lemma split_from_space_hd:
  "hd (split_from '' '' cur s) = cur @ takeWhile (\<lambda>c. c \<noteq> CHR '' '') s"
  by (induction "'' ''" cur s rule: split_from.induct) (auto simp: startsWith_def)

lemma first_word_takeWhile: "first_word part = takeWhile (\<lambda>c. c \<noteq> CHR '' '') part"
proof -
  have "split part '' '' \<noteq> []"
    using split_from_length [of "'' ''" "[]" part] by (auto simp: split_def)
  moreover have "hd (split part '' '') = takeWhile (\<lambda>c. c \<noteq> CHR '' '') part"
    using split_from_space_hd [of "[]" part] by (simp add: split_def)
  ultimately show ?thesis
    by (cases "split part '' ''") (auto simp: first_word_def)
qed

section \<open>Facts about the parser\<close>

lemmas reqline_eval =
  parseReqline_def split_def startsWith_def parse_part_def trim_def isWhiteSpace_def
  substring_def init_result_def check_required_def first_word_def sample_json_def

lemma parse_part_0_sections:
  "parse_part JSON_parse 0 raw r = Inr r' \<Longrightarrow>
     headers r' = headers r \<and> query r' = query r \<and> body r' = body r \<and> url r' = url r \<and>
     (method r' = Some ''GET'' \<or> method r' = Some ''POST'')"
  by (auto simp: parse_part_def Let_def split: if_splits)

lemma parse_part_1_sections:
  "parse_part JSON_parse (Suc 0) raw r = Inr r' \<Longrightarrow>
     headers r' = headers r \<and> query r' = query r \<and> body r' = body r \<and> method r' = method r \<and>
     (\<exists>u. url r' = Some u \<and> u \<noteq> [] \<and> (startsWith u ''http://'' \<or> startsWith u ''https://''))"
  by (auto simp: parse_part_def Let_def split: if_splits)

lemma parse_part_rest_sections:
  "2 \<le> i \<Longrightarrow> parse_part JSON_parse i raw r = Inr r' \<Longrightarrow> method r' = method r \<and> url r' = url r"
  by (auto simp: parse_part_def Let_def split: if_splits option.splits)

lemma parse_parts_rest_sections:
  "2 \<le> i \<Longrightarrow> parse_parts JSON_parse i ps r = Inr r' \<Longrightarrow> method r' = method r \<and> url r' = url r"
proof (induction ps arbitrary: i r)
  case Nil
  then show ?case by simp
next
  case (Cons p ps)
  from Cons.prems(2) obtain r1 where
    step: "parse_part JSON_parse i p r = Inr r1" and
    rest: "parse_parts JSON_parse (Suc i) ps r1 = Inr r'"
    by (auto split: sum.splits)
  from Cons.IH [of "Suc i" r1] Cons.prems(1) rest have "method r' = method r1 \<and> url r' = url r1"
    by simp
  with parse_part_rest_sections [OF Cons.prems(1) step] show ?case by simp
qed

lemma two_parts_sections:
  assumes "parse_parts JSON_parse 0 [a, b] r = Inr r'"
  shows "headers r' = headers r \<and> query r' = query r \<and> body r' = body r"
proof -
  from assms obtain r1 where
    s0: "parse_part JSON_parse 0 a r = Inr r1" and
    s1: "parse_part JSON_parse (Suc 0) b r1 = Inr r'"
    by (auto split: sum.splits)
  from parse_part_0_sections [OF s0] parse_part_1_sections [OF s1] show ?thesis by simp
qed

lemma check_required_Inr: "check_required r = Inr r' \<Longrightarrow> r' = r"
  by (auto simp: check_required_def split: if_splits)

text \<open>
  A descriptor that \<open>parseReqline\<close> returns has its method, GET or POST, and its url, which
  starts with one of the two schemes.
\<close>

lemma parseReqline_required:
  assumes "parseReqline JSON_parse reqline = Inr d"
  shows "(method d = Some ''GET'' \<or> method d = Some ''POST'') \<and>
         (\<exists>u. url d = Some u \<and> u \<noteq> [] \<and> (startsWith u ''http://'' \<or> startsWith u ''https://''))"
proof -
  let ?parts = "split reqline '' | ''"
  from assms have len: "2 \<le> length ?parts"
    by (auto simp: parseReqline_def Let_def split: if_splits)
  then obtain a b ps where parts: "?parts = a # b # ps"
    by (cases ?parts; cases "tl ?parts") auto
  from assms parts obtain r where
    loop: "parse_parts JSON_parse 0 (a # b # ps) init_result = Inr r" and
    chk: "check_required r = Inr d"
    by (auto simp: parseReqline_def Let_def split: sum.splits if_splits)
  from loop obtain r0 r1 where
    s0: "parse_part JSON_parse 0 a init_result = Inr r0" and
    s1: "parse_part JSON_parse (Suc 0) b r0 = Inr r1" and
    s2: "parse_parts JSON_parse (Suc (Suc 0)) ps r1 = Inr r"
    by (auto split: sum.splits)
  from parse_parts_rest_sections [OF _ s2] have "method r = method r1 \<and> url r = url r1" by simp
  with parse_part_0_sections [OF s0] parse_part_1_sections [OF s1] check_required_Inr [OF chk]
  show ?thesis by auto
qed

lemma two_segments_defaults:
  assumes "length (split reqline '' | '') = 2" and "parseReqline JSON_parse reqline = Inr d"
  shows "headers d = JObject [] \<and> query d = JObject [] \<and> body d = JObject []"
proof -
  from assms(1) obtain a b where ab: "split reqline '' | '' = [a, b]"
    using length_two_cases by blast
  from assms(2) ab obtain r where
    loop: "parse_parts JSON_parse 0 [a, b] init_result = Inr r" and
    chk: "check_required r = Inr d"
    by (auto simp: parseReqline_def Let_def split: sum.splits if_splits)
  from check_required_Inr [OF chk] have "d = r" .
  with two_parts_sections [OF loop] show ?thesis
    by (simp add: init_result_def)
qed

lemma parse_example:
  "parseReqline JSON_parse ''HTTP GET | URL https://api.example.com/x'' =
     Inr \<lparr>method = Some ''GET'', url = Some ''https://api.example.com/x'',
          headers = JObject [], query = JObject [], body = JObject []\<rparr>"
  by (simp add: reqline_eval)

lemma parse_ftp_url:
  "parseReqline JSON_parse ''HTTP GET | URL ftp://x.com/'' =
     Inl ''Invalid URL format. Must start with http:// or https://''"
  by (simp add: reqline_eval)

subsection \<open>Three messages that are never raised\<close>

lemma method_not_blank:
  "startsWith (trim raw) ''HTTP '' \<Longrightarrow> trim (substring (trim raw) 5) = [] \<Longrightarrow> False"
  using remainder_not_blank [of raw "''HTTP ''"] by (simp add: isWhiteSpace_def numeral_eq_Suc)

lemma url_not_blank:
  "startsWith (trim raw) ''URL '' \<Longrightarrow> trim (substring (trim raw) 4) = [] \<Longrightarrow> False"
  using remainder_not_blank [of raw "''URL ''"] by (simp add: isWhiteSpace_def numeral_eq_Suc)

lemma scheme_parts_not_less:
  "startsWith v ''http://'' \<or> startsWith v ''https://'' \<Longrightarrow> length (split v ''/'') < 3 \<Longrightarrow> False"
  using scheme_three_parts [of v] by simp

lemma no_missing_method: "parse_part JSON_parse i raw r \<noteq> Inl ''Missing HTTP method''"
proof
  assume "parse_part JSON_parse i raw r = Inl ''Missing HTTP method''"
  then have "startsWith (trim raw) ''HTTP '' \<and> trim (substring (trim raw) 5) = []"
    by (simp add: parse_part_def Let_def split: if_splits option.splits)
  then show False using method_not_blank by blast
qed

lemma no_missing_url_value: "parse_part JSON_parse i raw r \<noteq> Inl ''Missing URL value''"
proof
  assume "parse_part JSON_parse i raw r = Inl ''Missing URL value''"
  then have "startsWith (trim raw) ''URL '' \<and> trim (substring (trim raw) 4) = []"
    by (simp add: parse_part_def Let_def split: if_splits option.splits)
  then show False using url_not_blank by blast
qed

lemma no_missing_domain_or_path:
  "parse_part JSON_parse i raw r \<noteq> Inl ''Invalid URL format. Missing domain or path''"
proof
  assume "parse_part JSON_parse i raw r = Inl ''Invalid URL format. Missing domain or path''"
  then have "\<exists>v. (startsWith v ''http://'' \<or> startsWith v ''https://'') \<and> length (split v ''/'') < 3"
    by (simp add: parse_part_def Let_def split: if_splits option.splits) blast
  then show False using scheme_parts_not_less by blast
qed

lemma parse_parts_Inl:
  "parse_parts JSON_parse i ps r = Inl msg \<Longrightarrow> \<exists>j p r'. parse_part JSON_parse j p r' = Inl msg"
  by (induction ps arbitrary: i r) (auto split: sum.splits)

lemma parseReqline_Inl_cases:
  assumes "parseReqline JSON_parse reqline = Inl msg"
  shows "msg = ''Invalid reqline format. Expected at least HTTP and URL parts.'' \<or>
         msg = ''Missing required HTTP keyword'' \<or> msg = ''Missing required URL keyword'' \<or>
         (\<exists>j p r'. parse_part JSON_parse j p r' = Inl msg)"
proof (cases "length (split reqline '' | '') < 2")
  case True
  with assms show ?thesis by (simp add: parseReqline_def)
next
  case False
  show ?thesis
  proof (cases "parse_parts JSON_parse 0 (split reqline '' | '') init_result")
    case (Inl m)
    with assms False have "m = msg" by (simp add: parseReqline_def)
    with parse_parts_Inl Inl show ?thesis by blast
  next
    case (Inr res)
    with assms False have "check_required res = Inl msg" by (simp add: parseReqline_def)
    then show ?thesis by (auto simp: check_required_def split: if_splits)
  qed
qed

text \<open>
  Each segment is trimmed before its keyword is looked for, so what follows
  \<^verbatim>\<open>HTTP\<close> and its space, or \<^verbatim>\<open>URL\<close> and its space, is never blank; and a url
  with a scheme always has three parts. The three \<^verbatim>\<open>throw\<close> statements behind these
  tests are never reached.
\<close>

lemma parseReqline_dead_messages:
  "parseReqline JSON_parse reqline \<noteq> Inl ''Missing HTTP method'' \<and>
   parseReqline JSON_parse reqline \<noteq> Inl ''Missing URL value'' \<and>
   parseReqline JSON_parse reqline \<noteq> Inl ''Invalid URL format. Missing domain or path''"
proof -
  have a: "parseReqline JSON_parse reqline \<noteq> Inl ''Missing HTTP method''"
  proof
    assume "parseReqline JSON_parse reqline = Inl ''Missing HTTP method''"
    from parseReqline_Inl_cases [OF this] show False
      using no_missing_method by auto
  qed
  have b: "parseReqline JSON_parse reqline \<noteq> Inl ''Missing URL value''"
  proof
    assume "parseReqline JSON_parse reqline = Inl ''Missing URL value''"
    from parseReqline_Inl_cases [OF this] show False
      using no_missing_url_value by auto
  qed
  have c: "parseReqline JSON_parse reqline \<noteq> Inl ''Invalid URL format. Missing domain or path''"
  proof
    assume "parseReqline JSON_parse reqline = Inl ''Invalid URL format. Missing domain or path''"
    from parseReqline_Inl_cases [OF this] show False
      using no_missing_domain_or_path by auto
  qed
  from a b c show ?thesis by blast
qed

subsection \<open>The first segment that fails\<close>

lemma parse_parts_at:
  "i < length ps \<Longrightarrow> parse_parts JSON_parse k (take i ps) r0 = Inr r \<Longrightarrow>
   parse_part JSON_parse (k + i) (ps ! i) r = Inl msg \<Longrightarrow> parse_parts JSON_parse k ps r0 = Inl msg"
proof (induction ps arbitrary: i k r0)
  case Nil
  then show ?case by simp
next
  case (Cons p ps)
  show ?case
  proof (cases i)
    case 0
    with Cons.prems show ?thesis by simp
  next
    case (Suc j)
    with Cons.prems(2) obtain r1 where
      step: "parse_part JSON_parse k p r0 = Inr r1" and
      rest: "parse_parts JSON_parse (Suc k) (take j ps) r1 = Inr r"
      by (auto split: sum.splits)
    from Cons.prems(1) Suc have j: "j < length ps" by simp
    from Cons.prems(3) Suc have "parse_part JSON_parse (Suc k + j) (ps ! j) r = Inl msg" by simp
    from Cons.IH [OF j rest this] step show ?thesis by simp
  qed
qed

lemma parse_part_unknown:
  assumes "2 \<le> i" and "\<not> startsWith (trim raw) ''HEADERS ''" and "\<not> startsWith (trim raw) ''QUERY ''"
    and "\<not> startsWith (trim raw) ''BODY ''"
  shows "parse_part JSON_parse i raw r = Inl (''Unknown keyword: '' @ first_word (trim raw))"
  using assms by (simp add: parse_part_def Let_def)

section \<open>Facts about the URL builder\<close>




subsection \<open>The order of the properties\<close>








subsection \<open>The URL for an object\<close>


subsection \<open>What percent-encoding writes\<close>







lemma encode_unit_unreserved: "unreserved c \<Longrightarrow> encode_unit c = [c]"
  by (simp add: encode_unit_def)

lemma encode_unit_reserved: "\<not> unreserved c \<Longrightarrow> hd (encode_unit c) = CHR ''%''"
  by (simp add: encode_unit_def percent_def Let_def)

subsection \<open>Concrete URLs\<close>

lemmas url_eval =
  buildFullUrl_def own_keys_def own_property_order_def is_array_index_def digits_value_def
  startsWith_def encodeURIComponent_def encode_unit_def unreserved_def percent_def hex_digit_def
  hex_digits_def char_of_def bit_Suc_0_iff Let_def


lemma url_unprintable:
  "buildFullUrl nat_to_string ''http://x.com/y'' (JObject [(''q'', JObject [(''toString'', JNull)])]) =
     Inl \<lparr>message = ''Cannot convert object to primitive value'', response = None\<rparr>"
  by (simp add: url_eval)



section \<open>Facts about the handler\<close>

lemma catch_block_classified:
  "catch_block e = \<lparr>status = 400, data = Failure True (classified_message e)\<rparr>"
  by (simp add: catch_block_def classified_message_def parser_phrase_def HTTP_400_BAD_REQUEST_def
      split: option.splits)

lemma toLowerCase_methods: "toLowerCase ''GET'' = ''get'' \<and> toLowerCase ''POST'' = ''post''"
  by (simp add: toLowerCase_def lower_unit_def char_of_def bit_Suc_0_iff)

text \<open>
  What \<open>send_request\<close> does: it throws on a POST with \<^verbatim>\<open>null\<close> for body before any
  call; otherwise it calls the collaborator once, with the configuration of
  \<open>spec_request_config\<close>.
\<close>

lemma send_request_cases:
  "send_request axios t0 t1 parsed m fullUrl =
     (if m = ''POST'' \<and> body parsed = JNull
      then (Inl \<lparr>message = ''Cannot convert undefined or null to object'', response = None\<rparr>, [])
      else case axios (spec_request_config parsed m fullUrl) of
             Inl e \<Rightarrow> (Inl e, [Call_axios (spec_request_config parsed m fullUrl)])
           | Inr resp \<Rightarrow>
               (Inr \<lparr>status = 200,
                     data = Success
                       \<lparr>echo_query = query parsed, echo_body = body parsed,
                        echo_headers = headers parsed, full_url = fullUrl\<rparr>
                       \<lparr>http_status = resp_status resp, duration = t1 - t0,
                        request_start_timestamp = t0, request_stop_timestamp = t1,
                        response_data = resp_data resp\<rparr>\<rparr>,
                [Call_axios (spec_request_config parsed m fullUrl)]))"
proof (cases "m = ''POST''")
  case False
  then show ?thesis
    by (simp add: send_request_def spec_request_config_def HTTP_200_OK_def split: sum.splits)
next
  case True
  show ?thesis
  proof (cases "body parsed")
    case JNull
    with True show ?thesis by (simp add: send_request_def Object_keys_def)
  qed (use True in \<open>simp_all add: send_request_def Object_keys_def spec_request_config_def
         HTTP_200_OK_def split: sum.splits\<close>)
qed

lemma try_block_parsed:
  assumes "reqline = Some r" and "r \<noteq> []" and "parseReqline JSON_parse r = Inr parsed"
  shows "\<exists>m u. method parsed = Some m \<and> url parsed = Some u \<and> (m = ''GET'' \<or> m = ''POST'') \<and>
     try_block JSON_parse nts axios t0 t1 reqline =
       (case buildFullUrl nts u (query parsed) of
          Inl e \<Rightarrow> (Inl e, [Call_parseReqline r])
        | Inr fullUrl \<Rightarrow>
            (fst (send_request axios t0 t1 parsed m fullUrl),
             Call_parseReqline r # snd (send_request axios t0 t1 parsed m fullUrl)))"
proof -
  from parseReqline_required [OF assms(3)] obtain m u where
    mu: "method parsed = Some m" "url parsed = Some u" "m = ''GET'' \<or> m = ''POST''"
    by auto
  with assms have "try_block JSON_parse nts axios t0 t1 reqline =
       (case buildFullUrl nts u (query parsed) of
          Inl e \<Rightarrow> (Inl e, [Call_parseReqline r])
        | Inr fullUrl \<Rightarrow>
            (fst (send_request axios t0 t1 parsed m fullUrl),
             Call_parseReqline r # snd (send_request axios t0 t1 parsed m fullUrl)))"
    by (simp add: try_block_def not_reqline_def Let_def split: prod.splits sum.splits)
  with mu show ?thesis by blast
qed

lemma try_block_not_parsed:
  assumes "reqline = Some r" and "r \<noteq> []" and "parseReqline JSON_parse r = Inl msg"
  shows "try_block JSON_parse nts axios t0 t1 reqline =
           (Inl \<lparr>message = msg, response = None\<rparr>, [Call_parseReqline r])"
  using assms by (simp add: try_block_def not_reqline_def)

lemma try_block_missing:
  assumes "not_reqline reqline"
  shows "try_block JSON_parse nts axios t0 t1 reqline = (Inr missing_reqline, [])"
  using assms by (simp add: try_block_def)

text \<open>
  What the handler answers when the parser throws: the parser's message if it contains one
  of the five phrases, and the message with "Network error: " before it otherwise.
\<close>

lemma handler_parse_failure:
  assumes "reqline = Some r" and "r \<noteq> []" and "parseReqline JSON_parse r = Inl msg"
  shows "handler JSON_parse nts axios t0 t1 reqline =
           (\<lparr>status = 400,
             data = Failure True (if parser_phrase msg then msg else ''Network error: '' @ msg)\<rparr>,
            [Call_parseReqline r])"
  using assms
  by (simp add: handler_def try_block_not_parsed catch_block_classified classified_message_def)

text \<open>The three ways a request goes: no reqline, a reqline the parser rejects, one it accepts.\<close>

lemma reqline_cases:
  obtains (missing) "not_reqline reqline"
  | (failed) r msg where "reqline = Some r" "r \<noteq> []" "parseReqline JSON_parse r = Inl msg"
  | (parsed) r d where "reqline = Some r" "r \<noteq> []" "parseReqline JSON_parse r = Inr d"
proof (cases reqline)
  case None
  then show ?thesis using missing by (simp add: not_reqline_def)
next
  case (Some r)
  show ?thesis
  proof (cases "r = []")
    case True
    with Some show ?thesis using missing by (simp add: not_reqline_def)
  next
    case False
    with Some show ?thesis using failed parsed by (cases "parseReqline JSON_parse r") auto
  qed
qed

lemma handler_call_config:
  assumes "Call_axios cfg \<in> set (snd (handler JSON_parse nts axios t0 t1 reqline))"
  shows "\<exists>r parsed m u fullUrl. reqline = Some r \<and> parseReqline JSON_parse r = Inr parsed \<and>
           method parsed = Some m \<and> url parsed = Some u \<and> (m = ''GET'' \<or> m = ''POST'') \<and>
           buildFullUrl nts u (query parsed) = Inr fullUrl \<and>
           cfg = spec_request_config parsed m fullUrl"
proof (cases reqline rule: reqline_cases [where JSON_parse = JSON_parse])
  case missing
  with assms show ?thesis by (simp add: handler_def try_block_missing)
next
  case (failed r msg)
  with assms show ?thesis by (simp add: handler_def try_block_not_parsed)
next
  case (parsed r d)
  from try_block_parsed [OF parsed, of nts axios t0 t1] obtain m u where
    mu: "method d = Some m" "url d = Some u" "m = ''GET'' \<or> m = ''POST''" and
    tb: "try_block JSON_parse nts axios t0 t1 reqline =
       (case buildFullUrl nts u (query d) of
          Inl e \<Rightarrow> (Inl e, [Call_parseReqline r])
        | Inr fullUrl \<Rightarrow>
            (fst (send_request axios t0 t1 d m fullUrl),
             Call_parseReqline r # snd (send_request axios t0 t1 d m fullUrl)))"
    by blast
  show ?thesis
  proof (cases "buildFullUrl nts u (query d)")
    case (Inl e)
    with assms tb show ?thesis by (simp add: handler_def)
  next
    case (Inr fullUrl)
    with assms tb have "Call_axios cfg \<in> set (snd (send_request axios t0 t1 d m fullUrl))"
      by (auto simp: handler_def split: sum.splits)
    then have "cfg = spec_request_config d m fullUrl"
      by (auto simp: send_request_cases split: if_splits sum.splits)
    with parsed mu Inr show ?thesis by blast
  qed
qed

subsection \<open>Concrete runs\<close>

lemmas handler_eval =
  handler_def try_block_def not_reqline_def send_request_def buildFullUrl_def own_keys_def
  own_property_order_def toLowerCase_def
  lower_unit_def Object_keys_def sample_json_def sample_number_def upstream_ok_def upstream_404_def
  catch_block_def HTTP_400_BAD_REQUEST_def HTTP_200_OK_def missing_reqline_def
  char_of_def bit_Suc_0_iff Let_def

lemma run_404:
  "handler sample_json sample_number upstream_404 5 9 (Some ''HTTP GET | URL http://x.com/y'') =
     (\<lparr>status = 400, data = Failure True ''HTTP request failed: 404 Not Found''\<rparr>,
      [Call_parseReqline ''HTTP GET | URL http://x.com/y'',
       Call_axios \<lparr>cfg_method = ''get'', cfg_url = ''http://x.com/y'', cfg_headers = JObject [],
                   cfg_timeout = 10000, cfg_data = None\<rparr>])"
  by (simp add: handler_eval reqline_eval)

lemma run_ok_post:
  "handler sample_json sample_number upstream_ok 5 9
       (Some ''HTTP POST | URL http://x.com/y | BODY [null]'') =
     (\<lparr>status = 200,
       data = Success
         \<lparr>echo_query = JObject [], echo_body = JArray [JNull], echo_headers = JObject [],
          full_url = ''http://x.com/y''\<rparr>
         \<lparr>http_status = 200, duration = 4, request_start_timestamp = 5,
          request_stop_timestamp = 9, response_data = ''ok''\<rparr>\<rparr>,
      [Call_parseReqline ''HTTP POST | URL http://x.com/y | BODY [null]'',
       Call_axios \<lparr>cfg_method = ''post'', cfg_url = ''http://x.com/y'', cfg_headers = JObject [],
                   cfg_timeout = 10000, cfg_data = Some (JArray [JNull])\<rparr>])"
  by (simp add: handler_eval reqline_eval)

lemma run_short:
  "handler sample_json sample_number upstream_ok 5 9 (Some ''GET'') =
     (\<lparr>status = 400,
       data = Failure True ''Invalid reqline format. Expected at least HTTP and URL parts.''\<rparr>,
      [Call_parseReqline ''GET''])"
  by (simp add: handler_eval reqline_eval)

section \<open>The claims\<close>

text \<open>
  C1, at the reqline \<^verbatim>\<open>HTTP GET | URL ftp://x.com/\<close>: \<open>parseReqline\<close> fails with
  "Invalid URL format. Must start with http:// or https://", and the handler answers 400
  with the message "Network error: Invalid URL format. Must start with http:// or https://",
  not with the parser's message: the \<^verbatim>\<open>catch\<close> block passes a message on unchanged
  only when it contains one of five phrases, and "Invalid URL format" is not among them.
\<close>

theorem handler_invalid_url_message:
  "parseReqline JSON_parse ''HTTP GET | URL ftp://x.com/'' =
     Inl ''Invalid URL format. Must start with http:// or https://'' \<and>
   handler JSON_parse Number_toString axios requestStartTimestamp requestStopTimestamp
       (Some ''HTTP GET | URL ftp://x.com/'') =
     (\<lparr>status = 400,
       data = Failure True ''Network error: Invalid URL format. Must start with http:// or https://''\<rparr>,
      [Call_parseReqline ''HTTP GET | URL ftp://x.com/''])"
  by (simp add: handler_def try_block_def not_reqline_def parse_ftp_url catch_block_def startsWith_def
      HTTP_400_BAD_REQUEST_def)

text \<open>
  C2, as amended: every response of the handler has status 200 or 400. When the
  collaborator rejects a request with an error, the response is 400 and its message is the
  error's own message if that contains one of the five parser phrases, otherwise
  "HTTP request failed: status statusText" if the error carries a response, otherwise
  "Network error: " followed by the error's message. When the collaborator resolves, the
  status is 200 and the upstream status appears only as \<^verbatim>\<open>response.http_status\<close>. A
  parser error whose message contains one of the five phrases is answered with 400 and
  that message unchanged, and a missing reqline with 400 and "Missing reqline parameter":
  neither gets the "Network error: " prefix.
\<close>

theorem handler_status_and_message:
  "(status (fst (handler JSON_parse nts axios t0 t1 reqline)) = 200 \<or>
    status (fst (handler JSON_parse nts axios t0 t1 reqline)) = 400) \<and>
   (\<forall>cfg e. Call_axios cfg \<in> set (snd (handler JSON_parse nts axios t0 t1 reqline)) \<and>
        axios cfg = Inl e \<longrightarrow>
      fst (handler JSON_parse nts axios t0 t1 reqline) =
        \<lparr>status = 400, data = Failure True (classified_message e)\<rparr>) \<and>
   (\<forall>cfg resp. Call_axios cfg \<in> set (snd (handler JSON_parse nts axios t0 t1 reqline)) \<and>
        axios cfg = Inr resp \<longrightarrow>
      status (fst (handler JSON_parse nts axios t0 t1 reqline)) = 200 \<and>
      (\<exists>echo report. data (fst (handler JSON_parse nts axios t0 t1 reqline)) = Success echo report \<and>
         http_status report = resp_status resp)) \<and>
   (\<forall>r msg. reqline = Some r \<and> r \<noteq> [] \<and> parseReqline JSON_parse r = Inl msg \<and>
        parser_phrase msg \<longrightarrow>
      handler JSON_parse nts axios t0 t1 reqline =
        (\<lparr>status = 400, data = Failure True msg\<rparr>, [Call_parseReqline r])) \<and>
   (not_reqline reqline \<longrightarrow>
      handler JSON_parse nts axios t0 t1 reqline =
        (\<lparr>status = 400, data = Failure True ''Missing reqline parameter''\<rparr>, []))"
proof (cases reqline rule: reqline_cases [where JSON_parse = JSON_parse])
  case missing
  then have "handler JSON_parse nts axios t0 t1 reqline =
      (\<lparr>status = 400, data = Failure True ''Missing reqline parameter''\<rparr>, [])"
    by (simp add: handler_def try_block_missing missing_reqline_def HTTP_400_BAD_REQUEST_def)
  with missing show ?thesis by (auto simp: not_reqline_def)
next
  case (failed r msg)
  then have h: "handler JSON_parse nts axios t0 t1 reqline =
      (\<lparr>status = 400, data = Failure True (classified_message \<lparr>message = msg, response = None\<rparr>)\<rparr>,
       [Call_parseReqline r])"
    by (simp add: handler_def try_block_not_parsed catch_block_classified)
  have "parser_phrase msg \<Longrightarrow> classified_message \<lparr>message = msg, response = None\<rparr> = msg"
    by (simp add: classified_message_def)
  with h failed show ?thesis by (auto simp: not_reqline_def)
next
  case (parsed r d)
  from try_block_parsed [OF parsed, of nts axios t0 t1] obtain m u where
    tb: "try_block JSON_parse nts axios t0 t1 reqline =
       (case buildFullUrl nts u (query d) of
          Inl e \<Rightarrow> (Inl e, [Call_parseReqline r])
        | Inr fullUrl \<Rightarrow>
            (fst (send_request axios t0 t1 d m fullUrl),
             Call_parseReqline r # snd (send_request axios t0 t1 d m fullUrl)))"
    by blast
  show ?thesis
  proof (cases "buildFullUrl nts u (query d)")
    case (Inl e)
    with tb have "handler JSON_parse nts axios t0 t1 reqline = (catch_block e, [Call_parseReqline r])"
      by (simp add: handler_def)
    with parsed show ?thesis by (auto simp: catch_block_classified not_reqline_def)
  next
    case (Inr fullUrl)
    let ?cfg = "spec_request_config d m fullUrl"
    show ?thesis
    proof (cases "m = ''POST'' \<and> body d = JNull")
      case True
      with tb Inr have "handler JSON_parse nts axios t0 t1 reqline =
         (catch_block \<lparr>message = ''Cannot convert undefined or null to object'', response = None\<rparr>,
          [Call_parseReqline r])"
        by (simp add: handler_def send_request_cases)
      with parsed show ?thesis by (auto simp: catch_block_classified not_reqline_def)
    next
      case False
      show ?thesis
      proof (cases "axios ?cfg")
        case (Inl e)
        with tb Inr False have "handler JSON_parse nts axios t0 t1 reqline =
           (\<lparr>status = 400, data = Failure True (classified_message e)\<rparr>,
            [Call_parseReqline r, Call_axios ?cfg])"
          by (simp add: handler_def send_request_cases catch_block_classified)
        with parsed Inl show ?thesis by (auto simp: not_reqline_def)
      next
        case (Inr resp)
        with tb \<open>buildFullUrl nts u (query d) = Inr fullUrl\<close> False
        have "\<exists>echo report. handler JSON_parse nts axios t0 t1 reqline =
           (\<lparr>status = 200, data = Success echo report\<rparr>, [Call_parseReqline r, Call_axios ?cfg]) \<and>
           http_status report = resp_status resp"
          by (simp add: handler_def send_request_cases)
        with parsed Inr show ?thesis by (auto simp: not_reqline_def)
      qed
    qed
  qed
qed

theorem handler_status_and_message_witness:
  "Call_axios \<lparr>cfg_method = ''get'', cfg_url = ''http://x.com/y'', cfg_headers = JObject [],
               cfg_timeout = 10000, cfg_data = None\<rparr>
     \<in> set (snd (handler sample_json sample_number upstream_404 5 9
                   (Some ''HTTP GET | URL http://x.com/y''))) \<and>
   upstream_404 \<lparr>cfg_method = ''get'', cfg_url = ''http://x.com/y'', cfg_headers = JObject [],
                 cfg_timeout = 10000, cfg_data = None\<rparr> =
     Inl \<lparr>message = ''Request failed with status code 404'', response = Some (404, ''Not Found'')\<rparr> \<and>
   fst (handler sample_json sample_number upstream_404 5 9 (Some ''HTTP GET | URL http://x.com/y'')) =
     \<lparr>status = 400, data = Failure True ''HTTP request failed: 404 Not Found''\<rparr> \<and>
   Call_axios \<lparr>cfg_method = ''post'', cfg_url = ''http://x.com/y'', cfg_headers = JObject [],
               cfg_timeout = 10000, cfg_data = Some (JArray [JNull])\<rparr>
     \<in> set (snd (handler sample_json sample_number upstream_ok 5 9
                   (Some ''HTTP POST | URL http://x.com/y | BODY [null]''))) \<and>
   upstream_ok \<lparr>cfg_method = ''post'', cfg_url = ''http://x.com/y'', cfg_headers = JObject [],
                cfg_timeout = 10000, cfg_data = Some (JArray [JNull])\<rparr> =
     Inr \<lparr>resp_status = 200, resp_data = ''ok''\<rparr> \<and>
   status (fst (handler sample_json sample_number upstream_ok 5 9
                  (Some ''HTTP POST | URL http://x.com/y | BODY [null]''))) = 200 \<and>
   parseReqline sample_json ''GET'' =
     Inl ''Invalid reqline format. Expected at least HTTP and URL parts.'' \<and>
   parser_phrase ''Invalid reqline format. Expected at least HTTP and URL parts.'' \<and>
   handler sample_json sample_number upstream_ok 5 9 (Some ''GET'') =
     (\<lparr>status = 400,
       data = Failure True ''Invalid reqline format. Expected at least HTTP and URL parts.''\<rparr>,
      [Call_parseReqline ''GET'']) \<and>
   not_reqline None \<and>
   handler sample_json sample_number upstream_ok 5 9 None =
     (\<lparr>status = 400, data = Failure True ''Missing reqline parameter''\<rparr>, [])"
proof -
  let ?get = "\<lparr>cfg_method = ''get'', cfg_url = ''http://x.com/y'', cfg_headers = JObject [],
               cfg_timeout = 10000, cfg_data = (None :: unit json option)\<rparr>"
  let ?post = "\<lparr>cfg_method = ''post'', cfg_url = ''http://x.com/y'', cfg_headers = JObject [],
                cfg_timeout = 10000, cfg_data = Some (JArray [JNull :: unit json])\<rparr>"
  let ?e = "\<lparr>message = ''Request failed with status code 404'', response = Some (404, ''Not Found'')\<rparr>"
  let ?h404 = "handler sample_json sample_number upstream_404 5 9 (Some ''HTTP GET | URL http://x.com/y'')"
  let ?hok = "handler sample_json sample_number upstream_ok 5 9
                (Some ''HTTP POST | URL http://x.com/y | BODY [null]'')"
  let ?short = "''Invalid reqline format. Expected at least HTTP and URL parts.''"
  have a1: "Call_axios ?get \<in> set (snd ?h404)" by (simp add: run_404)
  have a2: "upstream_404 ?get = Inl ?e" by (simp add: upstream_404_def)
  from handler_status_and_message
         [of sample_json sample_number upstream_404 5 9 "Some ''HTTP GET | URL http://x.com/y''"] a1 a2
  have "fst ?h404 = \<lparr>status = 400, data = Failure True (classified_message ?e)\<rparr>" by blast
  then have a3: "fst ?h404 = \<lparr>status = 400, data = Failure True ''HTTP request failed: 404 Not Found''\<rparr>"
    by (simp add: classified_message_def parser_phrase_def startsWith_def char_of_def bit_Suc_0_iff)
  have b1: "Call_axios ?post \<in> set (snd ?hok)" by (simp add: run_ok_post)
  have b2: "upstream_ok ?post = Inr \<lparr>resp_status = 200, resp_data = ''ok''\<rparr>"
    by (simp add: upstream_ok_def)
  from handler_status_and_message
         [of sample_json sample_number upstream_ok 5 9
             "Some ''HTTP POST | URL http://x.com/y | BODY [null]''"] b1 b2
  have b3: "status (fst ?hok) = 200" by blast
  have c1: "parseReqline sample_json ''GET'' = Inl ?short" by (simp add: reqline_eval)
  have c2: "parser_phrase ?short" by (simp add: parser_phrase_def startsWith_def)
  from handler_status_and_message [of sample_json sample_number upstream_ok 5 9 "Some ''GET''"] c1 c2
  have c3: "handler sample_json sample_number upstream_ok 5 9 (Some ''GET'') =
              (\<lparr>status = 400, data = Failure True ?short\<rparr>, [Call_parseReqline ''GET''])"
    by blast
  have d1: "not_reqline None" by (simp add: not_reqline_def)
  from handler_status_and_message [of sample_json sample_number upstream_ok 5 9 None] d1
  have d2: "handler sample_json sample_number upstream_ok 5 9 None =
              (\<lparr>status = 400, data = Failure True ''Missing reqline parameter''\<rparr>, [])"
    by blast
  from a1 a2 a3 b1 b2 b3 c1 c2 c3 d1 d2 show ?thesis by blast
qed

text \<open>
  C2 as it is stated fails at the reqline \<^verbatim>\<open>GET\<close>: the failure is the parser's, the
  collaborator is not called, and the message of the response is the parser's own, without
  the "Network error: " prefix that the claim gives to every failure but a rejection with
  a response.
\<close>

theorem handler_status_and_message_counterexample:
  "handler sample_json sample_number upstream_ok 5 9 (Some ''GET'') =
     (\<lparr>status = 400,
       data = Failure True ''Invalid reqline format. Expected at least HTTP and URL parts.''\<rparr>,
      [Call_parseReqline ''GET'']) \<and>
   \<not> startsWith ''Invalid reqline format. Expected at least HTTP and URL parts.'' ''Network error: ''"
  by (simp add: run_short startsWith_def)

text \<open>
  C3, at the reqlines \<^verbatim>\<open>HTTP GET | URL http://\<close> and
  \<^verbatim>\<open>HTTP GET | URL https://example.com\<close>: \<open>parseReqline\<close> accepts both and stores
  the url as it is, the first with nothing after the scheme, the second with a domain and
  no path. No reqline at all is rejected with "Invalid URL format. Missing domain or path":
  a url that has passed the test for the scheme always splits into three parts.
\<close>

theorem parseReqline_accepts_url_without_path:
  "parseReqline JSON_parse ''HTTP GET | URL http://'' =
     Inr \<lparr>method = Some ''GET'', url = Some ''http://'',
          headers = JObject [], query = JObject [], body = JObject []\<rparr> \<and>
   parseReqline JSON_parse ''HTTP GET | URL https://example.com'' =
     Inr \<lparr>method = Some ''GET'', url = Some ''https://example.com'',
          headers = JObject [], query = JObject [], body = JObject []\<rparr> \<and>
   (\<forall>reqline. parseReqline JSON_parse reqline \<noteq> Inl ''Invalid URL format. Missing domain or path'')"
proof -
  have "parseReqline JSON_parse ''HTTP GET | URL http://'' =
     Inr \<lparr>method = Some ''GET'', url = Some ''http://'',
          headers = JObject [], query = JObject [], body = JObject []\<rparr>"
    by (simp add: reqline_eval)
  moreover have "parseReqline JSON_parse ''HTTP GET | URL https://example.com'' =
     Inr \<lparr>method = Some ''GET'', url = Some ''https://example.com'',
          headers = JObject [], query = JObject [], body = JObject []\<rparr>"
    by (simp add: reqline_eval)
  ultimately show ?thesis using parseReqline_dead_messages [of JSON_parse] by blast
qed

text \<open>
  C4, at the reqlines \<^verbatim>\<open>HTTP   | URL https://x.com/y\<close> and \<^verbatim>\<open>HTTP GET | URL   \<close>:
  the segment is trimmed before the test for the keyword with its space, so
  \<open>parseReqline\<close> fails with "Missing required HTTP keyword" and with
  "Missing required URL keyword". No reqline at all fails with "Missing HTTP method" or
  with "Missing URL value".
\<close>

theorem parseReqline_keyword_then_whitespace:
  "parseReqline JSON_parse ''HTTP   | URL https://x.com/y'' = Inl ''Missing required HTTP keyword'' \<and>
   parseReqline JSON_parse ''HTTP GET | URL   '' = Inl ''Missing required URL keyword'' \<and>
   (\<forall>reqline. parseReqline JSON_parse reqline \<noteq> Inl ''Missing HTTP method'' \<and>
              parseReqline JSON_parse reqline \<noteq> Inl ''Missing URL value'')"
proof -
  have "parseReqline JSON_parse ''HTTP   | URL https://x.com/y'' = Inl ''Missing required HTTP keyword''"
    by (simp add: reqline_eval)
  moreover have "parseReqline JSON_parse ''HTTP GET | URL   '' = Inl ''Missing required URL keyword''"
    by (simp add: reqline_eval)
  ultimately show ?thesis using parseReqline_dead_messages [of JSON_parse] by blast
qed

text \<open>
  C5: \<^verbatim>\<open>parseReqline("HTTP GET | URL https://api.example.com/x")\<close> returns the descriptor
  with method GET, that url and empty headers, query and body; and every reqline of exactly
  two segments that \<open>parseReqline\<close> accepts has the empty mapping for headers, query and
  body. This holds for whatever \<^verbatim>\<open>JSON.parse\<close> the runtime has.
\<close>

theorem parseReqline_http_url_only:
  "parseReqline JSON_parse ''HTTP GET | URL https://api.example.com/x'' =
     Inr \<lparr>method = Some ''GET'', url = Some ''https://api.example.com/x'',
          headers = JObject [], query = JObject [], body = JObject []\<rparr> \<and>
   (\<forall>reqline d.
      length (split reqline '' | '') = 2 \<and> parseReqline JSON_parse reqline = Inr d \<longrightarrow>
      headers d = JObject [] \<and> query d = JObject [] \<and> body d = JObject [])"
  using parse_example two_segments_defaults by blast

theorem parseReqline_http_url_only_witness:
  "length (split ''HTTP POST | URL http://x.com/y'' '' | '') = 2 \<and>
   parseReqline sample_json ''HTTP POST | URL http://x.com/y'' =
     Inr \<lparr>method = Some ''POST'', url = Some ''http://x.com/y'',
          headers = JObject [], query = JObject [], body = JObject []\<rparr> \<and>
   headers \<lparr>method = Some ''POST'', url = Some ''http://x.com/y'',
            headers = JObject [], query = JObject [], body = (JObject [] :: unit json)\<rparr> = JObject []"
proof -
  have two: "length (split ''HTTP POST | URL http://x.com/y'' '' | '') = 2"
    by (simp add: split_def startsWith_def)
  have ok: "parseReqline sample_json ''HTTP POST | URL http://x.com/y'' =
     Inr \<lparr>method = Some ''POST'', url = Some ''http://x.com/y'',
          headers = JObject [], query = JObject [], body = JObject []\<rparr>"
    by (simp add: reqline_eval)
  from parseReqline_http_url_only [of sample_json] two ok
  have "headers \<lparr>method = Some ''POST'', url = Some ''http://x.com/y'',
            headers = JObject [], query = JObject [], body = (JObject [] :: unit json)\<rparr> = JObject []"
    by blast
  with two ok show ?thesis by blast
qed

text \<open>
  C6, as amended: for every segment at index \<open>i \<ge> 2\<close> whose trimmed text starts with
  none of "HEADERS ", "QUERY " and "BODY ", if the segments before it have been read without
  an error, \<open>parseReqline\<close> fails with "Unknown keyword: " followed by the trimmed
  segment's text before its first space.
\<close>

theorem unknown_keyword_first_error:
  assumes "2 \<le> i" and "i < length (split reqline '' | '')"
    and "parse_parts JSON_parse 0 (take i (split reqline '' | '')) init_result = Inr r"
    and "\<not> startsWith (trim (split reqline '' | '' ! i)) ''HEADERS ''"
    and "\<not> startsWith (trim (split reqline '' | '' ! i)) ''QUERY ''"
    and "\<not> startsWith (trim (split reqline '' | '' ! i)) ''BODY ''"
  shows "parseReqline JSON_parse reqline =
           Inl (''Unknown keyword: '' @
                takeWhile (\<lambda>c. c \<noteq> CHR '' '') (trim (split reqline '' | '' ! i)))"
proof -
  let ?parts = "split reqline '' | ''"
  have "parse_part JSON_parse (0 + i) (?parts ! i) r =
          Inl (''Unknown keyword: '' @ first_word (trim (?parts ! i)))"
    using parse_part_unknown [OF assms(1) assms(4) assms(5) assms(6)] by simp
  from parse_parts_at [OF assms(2) assms(3) this]
  have "parse_parts JSON_parse 0 ?parts init_result =
      Inl (''Unknown keyword: '' @ first_word (trim (?parts ! i)))" .
  moreover have "\<not> length ?parts < 2" using assms(1) assms(2) by simp
  ultimately show ?thesis
    by (simp add: parseReqline_def first_word_takeWhile)
qed

theorem unknown_keyword_first_error_witness:
  "(2::nat) \<le> 2 \<and> 2 < length (split ''HTTP GET | URL https://x.com/ | HEADERS'' '' | '') \<and>
   parse_parts sample_json 0 (take 2 (split ''HTTP GET | URL https://x.com/ | HEADERS'' '' | ''))
       init_result =
     Inr \<lparr>method = Some ''GET'', url = Some ''https://x.com/'',
          headers = JObject [], query = JObject [], body = JObject []\<rparr> \<and>
   \<not> startsWith (trim (split ''HTTP GET | URL https://x.com/ | HEADERS'' '' | '' ! 2)) ''HEADERS '' \<and>
   \<not> startsWith (trim (split ''HTTP GET | URL https://x.com/ | HEADERS'' '' | '' ! 2)) ''QUERY '' \<and>
   \<not> startsWith (trim (split ''HTTP GET | URL https://x.com/ | HEADERS'' '' | '' ! 2)) ''BODY '' \<and>
   parseReqline sample_json ''HTTP GET | URL https://x.com/ | HEADERS'' = Inl ''Unknown keyword: HEADERS''"
proof -
  let ?r = "''HTTP GET | URL https://x.com/ | HEADERS''"
  have parts: "split ?r '' | '' = [''HTTP GET'', ''URL https://x.com/'', ''HEADERS'']"
    by (simp add: split_def startsWith_def)
  have h1: "(2::nat) \<le> 2" by simp
  have h2: "2 < length (split ?r '' | '')" by (simp add: parts)
  have h3: "parse_parts sample_json 0 (take 2 (split ?r '' | '')) init_result =
     Inr \<lparr>method = Some ''GET'', url = Some ''https://x.com/'',
          headers = JObject [], query = JObject [], body = JObject []\<rparr>"
    by (simp add: parts reqline_eval)
  have h4: "\<not> startsWith (trim (split ?r '' | '' ! 2)) ''HEADERS ''"
    by (simp add: parts startsWith_def trim_def isWhiteSpace_def)
  have h5: "\<not> startsWith (trim (split ?r '' | '' ! 2)) ''QUERY ''"
    by (simp add: parts startsWith_def trim_def isWhiteSpace_def)
  have h6: "\<not> startsWith (trim (split ?r '' | '' ! 2)) ''BODY ''"
    by (simp add: parts startsWith_def trim_def isWhiteSpace_def)
  from unknown_keyword_first_error [OF h1 h2 h3 h4 h5 h6]
  have "parseReqline sample_json ?r = Inl ''Unknown keyword: HEADERS''"
    by (simp add: parts trim_def isWhiteSpace_def)
  with h1 h2 h3 h4 h5 h6 show ?thesis by blast
qed

text \<open>
  C6 as it is stated fails at the reqline \<^verbatim>\<open>GET | URL https://x.com/ | FOO bar\<close>: its
  segment at index 2 trims to \<^verbatim>\<open>FOO bar\<close>, which starts with none of the three keywords,
  and \<open>parseReqline\<close> fails with "Missing required HTTP keyword", raised at segment 0,
  not with "Unknown keyword: FOO".
\<close>

theorem unknown_keyword_first_error_counterexample:
  "2 < length (split ''GET | URL https://x.com/ | FOO bar'' '' | '') \<and>
   trim (split ''GET | URL https://x.com/ | FOO bar'' '' | '' ! 2) = ''FOO bar'' \<and>
   \<not> startsWith ''FOO bar'' ''HEADERS '' \<and> \<not> startsWith ''FOO bar'' ''QUERY '' \<and>
   \<not> startsWith ''FOO bar'' ''BODY '' \<and>
   first_word ''FOO bar'' = ''FOO'' \<and>
   parseReqline sample_json ''GET | URL https://x.com/ | FOO bar'' = Inl ''Missing required HTTP keyword'' \<and>
   parseReqline sample_json ''GET | URL https://x.com/ | FOO bar'' \<noteq> Inl ''Unknown keyword: FOO''"
  by (simp add: reqline_eval)




text \<open>
  C8: a request configuration that the handler hands to the collaborator comes from a
  reqline that \<open>parseReqline\<close> accepted, and it carries the parsed method in lower case
  (\<^verbatim>\<open>get\<close> or \<^verbatim>\<open>post\<close>), the full URL built from the parsed url and query, the parsed
  headers as they are and the timeout 10000; its payload is the parsed body if the method
  is POST and the body has a key, and it has no payload otherwise, so never for GET.
\<close>

theorem request_config_handed_to_collaborator:
  assumes "Call_axios cfg \<in> set (snd (handler JSON_parse Number_toString axios t0 t1 reqline))"
  shows "\<exists>r parsed m u.
           reqline = Some r \<and> parseReqline JSON_parse r = Inr parsed \<and>
           method parsed = Some m \<and> url parsed = Some u \<and>
           cfg_method cfg = toLowerCase m \<and>
           (m = ''GET'' \<and> cfg_method cfg = ''get'' \<or> m = ''POST'' \<and> cfg_method cfg = ''post'') \<and>
           buildFullUrl Number_toString u (query parsed) = Inr (cfg_url cfg) \<and>
           cfg_headers cfg = headers parsed \<and>
           cfg_timeout cfg = 10000 \<and>
           cfg_data cfg =
             (if m = ''POST'' \<and> own_keys (body parsed) \<noteq> [] then Some (body parsed) else None) \<and>
           (m = ''GET'' \<longrightarrow> cfg_data cfg = None)"
proof -
  from handler_call_config [OF assms] obtain r parsed m u fullUrl where
    h: "reqline = Some r" "parseReqline JSON_parse r = Inr parsed"
       "method parsed = Some m" "url parsed = Some u" "m = ''GET'' \<or> m = ''POST''"
       "cfg = spec_request_config parsed m fullUrl" and
    b: "buildFullUrl Number_toString u (query parsed) = Inr fullUrl"
    by blast
  from h(5) h(6) have m: "m = ''GET'' \<and> cfg_method cfg = ''get'' \<or> m = ''POST'' \<and> cfg_method cfg = ''post''"
    using toLowerCase_methods by (auto simp: spec_request_config_def)
  from h(6) b have f: "cfg_method cfg = toLowerCase m"
    "buildFullUrl Number_toString u (query parsed) = Inr (cfg_url cfg)"
    "cfg_headers cfg = headers parsed" "cfg_timeout cfg = 10000"
    "cfg_data cfg = (if m = ''POST'' \<and> own_keys (body parsed) \<noteq> [] then Some (body parsed) else None)"
    by (simp_all add: spec_request_config_def)
  from f(5) have g: "m = ''GET'' \<longrightarrow> cfg_data cfg = None" by simp
  from h(1-4) m f g show ?thesis by blast
qed

theorem request_config_handed_to_collaborator_witness:
  "Call_axios \<lparr>cfg_method = ''post'', cfg_url = ''http://x.com/y'', cfg_headers = JObject [],
               cfg_timeout = 10000, cfg_data = Some (JArray [JNull])\<rparr>
     \<in> set (snd (handler sample_json sample_number upstream_ok 5 9
                   (Some ''HTTP POST | URL http://x.com/y | BODY [null]''))) \<and>
   (\<exists>parsed. parseReqline sample_json ''HTTP POST | URL http://x.com/y | BODY [null]'' = Inr parsed \<and>
      method parsed = Some ''POST'' \<and> own_keys (body parsed) \<noteq> [] \<and>
      cfg_data \<lparr>cfg_method = ''post'', cfg_url = ''http://x.com/y'', cfg_headers = JObject [],
                cfg_timeout = 10000, cfg_data = Some (JArray [JNull :: unit json])\<rparr> = Some (body parsed))"
proof -
  let ?post = "\<lparr>cfg_method = ''post'', cfg_url = ''http://x.com/y'', cfg_headers = JObject [],
                cfg_timeout = 10000, cfg_data = Some (JArray [JNull :: unit json])\<rparr>"
  have h: "Call_axios ?post \<in> set (snd (handler sample_json sample_number upstream_ok 5 9
                   (Some ''HTTP POST | URL http://x.com/y | BODY [null]'')))"
    by (simp add: run_ok_post)
  from request_config_handed_to_collaborator [OF h] obtain r parsed m u where
    c: "Some ''HTTP POST | URL http://x.com/y | BODY [null]'' = Some r"
       "parseReqline sample_json r = Inr parsed" "method parsed = Some m"
       "m = ''GET'' \<and> cfg_method ?post = ''get'' \<or> m = ''POST'' \<and> cfg_method ?post = ''post''"
       "cfg_data ?post =
          (if m = ''POST'' \<and> own_keys (body parsed) \<noteq> [] then Some (body parsed) else None)"
    by blast
  from c(4) have m: "m = ''POST''" by simp
  from c(5) m have "own_keys (body parsed) \<noteq> [] \<and> cfg_data ?post = Some (body parsed)"
    by (simp split: if_splits)
  with c(1) c(2) c(3) m h show ?thesis by auto
qed

text \<open>
  C9: when the request body has no \<^verbatim>\<open>reqline\<close> field, the handler returns status 400
  with \<^verbatim>\<open>{error: true, message: "Missing reqline parameter"}\<close>, and it has called neither
  \<open>parseReqline\<close> nor the collaborator: its list of calls is empty.
\<close>

theorem handler_missing_reqline:
  "handler JSON_parse Number_toString axios requestStartTimestamp requestStopTimestamp None =
     (\<lparr>status = 400, data = Failure True ''Missing reqline parameter''\<rparr>, [])"
  by (simp add: handler_def try_block_def not_reqline_def missing_reqline_def HTTP_400_BAD_REQUEST_def)

text \<open>
  C10: a \<^verbatim>\<open>reqline\<close> that is present but the empty string is answered like an absent one,
  with status 400 and "Missing reqline parameter" and without a call of \<open>parseReqline\<close>;
  the message is not the "Invalid reqline format" one that \<open>parseReqline\<close> has for the
  empty string.
\<close>

theorem handler_empty_reqline:
  "handler JSON_parse Number_toString axios requestStartTimestamp requestStopTimestamp (Some []) =
     handler JSON_parse Number_toString axios requestStartTimestamp requestStopTimestamp None \<and>
   handler JSON_parse Number_toString axios requestStartTimestamp requestStopTimestamp (Some []) =
     (\<lparr>status = 400, data = Failure True ''Missing reqline parameter''\<rparr>, []) \<and>
   data (fst (handler JSON_parse Number_toString axios requestStartTimestamp requestStopTimestamp (Some [])))
     \<noteq> Failure True ''Invalid reqline format. Expected at least HTTP and URL parts.'' \<and>
   parseReqline JSON_parse [] = Inl ''Invalid reqline format. Expected at least HTTP and URL parts.''"
  by (simp add: handler_def try_block_def not_reqline_def missing_reqline_def HTTP_400_BAD_REQUEST_def
      reqline_eval)

end
